theory Spec2Isabelle
  imports Main
begin

section \<open>vite-plugin-mkcert: the Mkcert class\<close>

text \<open>
  A shallow embedding of the class \<open>Mkcert\<close> (the provisioning and regeneration
  decision engine). Every method that awaits, logs or mutates persisted state becomes a
  function from a \<open>world\<close> to an outcome and the world after it. A rejected promise is
  the left summand of the outcome; the world is returned in both cases, so that what a
  failed call left behind can be stated.
\<close>

subsection \<open>Data\<close>

type_synonym filesystem = "string \<Rightarrow> string option"

text \<open>The object \<open>{key, cert}\<close> returned by \<open>install\<close>.\<close>

record certificate =
  key :: string
  cert :: string

text \<open>
  The object \<open>{key, cert}\<close> built by \<open>getLatestHash\<close>. A field is \<open>None\<close> when
  the file has no content hash (see \<open>getHash\<close> below).
\<close>

record hash_pair =
  hkey :: "string option"
  hcert :: "string option"

text \<open>The argument of \<open>record.update\<close>: \<open>{hosts, hash}\<close>.\<close>

record cert_record =
  hosts :: "string list"
  hash :: hash_pair

record source_info =
  si_version :: string
  downloadUrl :: string

text \<open>
  The object returned by \<open>versionManger.compare\<close>, with the four fields that
  \<open>updateMkcert\<close> reads. \<open>currentVersion\<close> is \<open>None\<close> for \<open>undefined\<close>.
\<close>

record version_info =
  currentVersion :: "string option"
  nextVersion :: string
  shouldUpdate :: bool
  breakingChange :: bool

text \<open>
  \<open>SourceType = 'github' | 'coding' | BaseSource\<close>. A custom source object is
  represented by what its \<open>getSourceInfo\<close> resolves to.
\<close>

datatype source_type = Github | Coding | Custom "source_info option"

text \<open>\<open>MkcertOptions\<close>; an optional field that is left out is \<open>None\<close>.\<close>

record mkcert_options =
  opt_autoUpgrade :: "bool option"
  opt_source :: "source_type option"
  opt_mkcertPath :: "string option"

text \<open>The private fields of a \<open>Mkcert\<close> instance.\<close>

record mkcert =
  autoUpgrade :: "bool option"
  mkcertLocalPath :: "string option"
  sourceType :: source_type
  mkcertSavedPath :: string

datatype error =
    ExecFailed string
  | ReadFailed string
  | DownloadFailed string string

text \<open>
  What the class does to the outside, in the order it does it: calls of the vite logger,
  calls of \<open>debug\<close> (format string and arguments), and the three external actions.
\<close>

datatype event =
    LoggerError string
  | LoggerInfo string
  | Debug string "string option list"
  | EnsureDirExist string
  | Exec string
  | Download string string

text \<open>
  The collaborators that the class imports and that are not part of it: path resolution,
  the platform name, terminal colouring, pretty printing, the content digest, the
  subprocess runner, the downloader, the two built-in sources and the version comparison.
  \<open>exec\<close> and \<open>download\<close> give the file system after the call, or \<open>None\<close> when the
  promise rejects. \<open>compare\<close> receives the persisted version and the latest version.
\<close>

record env =
  resolvePath :: "string \<Rightarrow> string"
  platform :: string
  chalk_red :: "string \<Rightarrow> string"
  prettyLog :: "hash_pair option \<Rightarrow> string"
  digest :: "string \<Rightarrow> string"
  exec :: "string \<Rightarrow> filesystem \<Rightarrow> filesystem option"
  download :: "string \<Rightarrow> string \<Rightarrow> filesystem \<Rightarrow> filesystem option"
  githubSource :: "source_info option"
  codingSource :: "source_info option"
  compare :: "string option \<Rightarrow> string \<Rightarrow> version_info"

text \<open>
  Everything the class reads and writes: the files on disk, the persisted version, the
  persisted certificate record, and the trace of events emitted so far.
\<close>

record world =
  fs :: filesystem
  version :: "string option"
  certRecord :: "cert_record option"
  trace :: "event list"

subsection \<open>JavaScript helpers\<close>

text \<open>\<open>Array.prototype.join\<close>.\<close>

fun join :: "string \<Rightarrow> string list \<Rightarrow> string" where
  "join sep [] = []"
| "join sep [x] = x"
| "join sep (x # y # ys) = x @ sep @ join sep (y # ys)"

text \<open>Truthiness of a value of type \<open>string | undefined\<close>.\<close>

fun truthy :: "string option \<Rightarrow> bool" where
  "truthy None = False"
| "truthy (Some s) = (s \<noteq> [])"

text \<open>\<open>a || b\<close> for \<open>a : string | undefined\<close> and \<open>b : string\<close>.\<close>

fun js_or :: "string option \<Rightarrow> string \<Rightarrow> string" where
  "js_or None b = b"
| "js_or (Some a) b = (if a = [] then b else a)"

text \<open>A value of type \<open>string | undefined\<close> inside a template literal.\<close>

fun template :: "string option \<Rightarrow> string" where
  "template None = ''undefined''"
| "template (Some s) = s"

text \<open>A value of type \<open>string[] | undefined\<close> inside a template literal.\<close>

fun template_list :: "string list option \<Rightarrow> string" where
  "template_list None = ''undefined''"
| "template_list (Some xs) = join '','' xs"

definition emit :: "event \<Rightarrow> world \<Rightarrow> world" where
  "emit e w = w\<lparr>trace := trace w @ [e]\<rparr>"

definition debug :: "string \<Rightarrow> string option list \<Rightarrow> world \<Rightarrow> world" where
  "debug fmt args w = emit (Debug fmt args) w"

subsection \<open>Code of the repository that the class calls\<close>

text \<open>
  Modelled from the spec: \<open>exists\<close> of \<open>lib/util\<close> is missing from the sources;
  it tells whether a file is present at the path.
\<close>

definition exists_file :: "world \<Rightarrow> string \<Rightarrow> bool" where
  "exists_file w p = (fs w p \<noteq> None)"

text \<open>
  Modelled from the spec: \<open>getHash\<close> of \<open>lib/util\<close> is missing from the sources.
  The spec makes it the content hash of the file's bytes, and makes a missing or
  unreadable file hash to something that differs from every valid hash.
\<close>

definition getHash :: "env \<Rightarrow> world \<Rightarrow> string \<Rightarrow> string option" where
  "getHash E w p = map_option (digest E) (fs w p)"

text \<open>
  Modelled from the spec: \<open>ensureDirExist\<close> of \<open>lib/util\<close> is missing from the
  sources; it ensures that the parent directory of the path exists. It is recorded as an
  event.
\<close>

definition ensureDirExist :: "string \<Rightarrow> world \<Rightarrow> world" where
  "ensureDirExist p w = emit (EnsureDirExist p) w"

text \<open>
  Modelled from the spec: the class \<open>Record\<close> is missing from the sources. The spec
  makes \<open>contains\<close> the order-independent equality of the requested hosts and the
  recorded hosts, \<open>tamper\<close> the inequality of the live hash and the recorded hash, and
  \<open>update\<close> the overwriting of the record. No record has been persisted before the first
  successful generation: then nothing equals the requested hosts.
\<close>

definition Record_getHosts :: "world \<Rightarrow> string list option" where
  "Record_getHosts w = map_option hosts (certRecord w)"

definition Record_getHash :: "world \<Rightarrow> hash_pair option" where
  "Record_getHash w = map_option hash (certRecord w)"

definition Record_contains :: "world \<Rightarrow> string list \<Rightarrow> bool" where
  "Record_contains w hs =
     (case Record_getHosts w of None \<Rightarrow> False | Some old \<Rightarrow> set hs = set old)"

definition Record_tamper :: "world \<Rightarrow> hash_pair \<Rightarrow> bool" where
  "Record_tamper w h =
     (case Record_getHash w of None \<Rightarrow> True | Some old \<Rightarrow> old \<noteq> h)"

definition Record_update :: "cert_record \<Rightarrow> world \<Rightarrow> world" where
  "Record_update r w = w\<lparr>certRecord := Some r\<rparr>"

text \<open>
  Modelled from the spec: \<open>VersionManger.update\<close> is missing from the sources; it
  persists the version string.
\<close>

definition VersionManger_update :: "string \<Rightarrow> world \<Rightarrow> world" where
  "VersionManger_update v w = w\<lparr>version := Some v\<rparr>"

text \<open>
  Modelled from the spec: \<open>Config.init\<close> is missing from the sources; it loads the
  persisted state, which \<open>world\<close> already holds.
\<close>

definition Config_init :: "world \<Rightarrow> world" where
  "Config_init w = w"

subsection \<open>The class\<close>

definition KEY_FILE_PATH :: "env \<Rightarrow> string" where
  "KEY_FILE_PATH E = resolvePath E ''certs/dev.key''"

definition CERT_FILE_PATH :: "env \<Rightarrow> string" where
  "CERT_FILE_PATH E = resolvePath E ''certs/dev.pem''"

text \<open>The constructor, reached through \<open>Mkcert.create\<close>.\<close>

definition create :: "env \<Rightarrow> mkcert_options \<Rightarrow> mkcert" where
  "create E options =
     \<lparr> autoUpgrade = opt_autoUpgrade options,
       mkcertLocalPath = opt_mkcertPath options,
       sourceType = (case opt_source options of None \<Rightarrow> Github | Some s \<Rightarrow> s),
       mkcertSavedPath =
         resolvePath E (if platform E = ''win32'' then ''mkcert.exe'' else ''mkcert'') \<rparr>"

text \<open>\<open>this.source.getSourceInfo()\<close>, for the source the constructor chose.\<close>

definition getSourceInfo :: "env \<Rightarrow> mkcert \<Rightarrow> source_info option" where
  "getSourceInfo E m =
     (case sourceType m of
        Github \<Rightarrow> githubSource E
      | Coding \<Rightarrow> codingSource E
      | Custom r \<Rightarrow> r)"

text \<open>
  In the first branch \<open>mkcertLocalPath\<close> is a non-empty string, which \<open>template\<close>
  returns as it is. The call of \<open>logger.error\<close> follows the existence check and is not
  guarded by its result.
\<close>

definition checkMkcert :: "env \<Rightarrow> mkcert \<Rightarrow> world \<Rightarrow> bool \<times> world" where
  "checkMkcert E m w =
     (if truthy (mkcertLocalPath m)
      then (exists_file w (template (mkcertLocalPath m)),
            emit (LoggerError (chalk_red E
              (template (mkcertLocalPath m) @
               '' does not exist, please check the mkcertPath paramter''))) w)
      else (exists_file w (mkcertSavedPath m), w))"

definition getMkcertBinnary :: "env \<Rightarrow> mkcert \<Rightarrow> world \<Rightarrow> string option \<times> world" where
  "getMkcertBinnary E m w =
     (case checkMkcert E m w of
        (exist, w1) \<Rightarrow>
          (if exist then Some (js_or (mkcertLocalPath m) (mkcertSavedPath m)) else None, w1))"

definition getCertificate :: "env \<Rightarrow> world \<Rightarrow> (error + certificate) \<times> world" where
  "getCertificate E w =
     (case fs w (KEY_FILE_PATH E) of
        None \<Rightarrow> (Inl (ReadFailed (KEY_FILE_PATH E)), w)
      | Some k \<Rightarrow>
          (case fs w (CERT_FILE_PATH E) of
             None \<Rightarrow> (Inl (ReadFailed (CERT_FILE_PATH E)), w)
           | Some c \<Rightarrow> (Inr \<lparr> key = k, cert = c \<rparr>, w)))"

text \<open>The command line built by \<open>createCertificate\<close>.\<close>

definition cmd_of :: "env \<Rightarrow> string option \<Rightarrow> string list \<Rightarrow> string" where
  "cmd_of E mkcertBinnary hostnames =
     template mkcertBinnary @ '' -install -key-file '' @ KEY_FILE_PATH E @
     '' -cert-file '' @ CERT_FILE_PATH E @ '' '' @ join '' '' hostnames"

definition createCertificate ::
  "env \<Rightarrow> mkcert \<Rightarrow> string list \<Rightarrow> world \<Rightarrow> (error + unit) \<times> world" where
  "createCertificate E m hostnames w =
     (case getMkcertBinnary E m w of
        (mkcertBinnary, w1) \<Rightarrow>
          let hostlist = join '' '' hostnames;
              w2 = (if \<not> truthy mkcertBinnary
                    then debug (''Mkcert does not exist, unable to generate certificate for ''
                                @ hostlist) [] w1
                    else w1);
              w3 = ensureDirExist (KEY_FILE_PATH E) w2;
              w4 = ensureDirExist (CERT_FILE_PATH E) w3;
              cmd = cmd_of E mkcertBinnary hostnames;
              w5 = emit (Exec cmd) w4
          in (case exec E cmd (fs w5) of
                None \<Rightarrow> (Inl (ExecFailed cmd), w5)
              | Some fs' \<Rightarrow>
                  (Inr (),
                   emit (LoggerInfo (''The certificate is saved in:'' @ [CHR 0x0A] @
                           KEY_FILE_PATH E @ [CHR 0x0A] @ CERT_FILE_PATH E))
                     (w5\<lparr>fs := fs'\<rparr>))))"

definition getLatestHash :: "env \<Rightarrow> world \<Rightarrow> hash_pair" where
  "getLatestHash E w =
     \<lparr> hkey = getHash E w (KEY_FILE_PATH E), hcert = getHash E w (CERT_FILE_PATH E) \<rparr>"

definition regenerate ::
  "env \<Rightarrow> mkcert \<Rightarrow> string list \<Rightarrow> world \<Rightarrow> (error + unit) \<times> world" where
  "regenerate E m hs w =
     (case createCertificate E m hs w of
        (Inl e, w1) \<Rightarrow> (Inl e, w1)
      | (Inr u, w1) \<Rightarrow>
          (Inr (), Record_update \<lparr> hosts = hs, hash = getLatestHash E w1 \<rparr> w1))"

definition downloadMkcert ::
  "env \<Rightarrow> string \<Rightarrow> string \<Rightarrow> world \<Rightarrow> (error + unit) \<times> world" where
  "downloadMkcert E sourceUrl distPath w =
     (let w1 = emit (Download sourceUrl distPath) w
      in case download E sourceUrl distPath (fs w1) of
           None \<Rightarrow> (Inl (DownloadFailed sourceUrl distPath), w1)
         | Some fs' \<Rightarrow> (Inr (), w1\<lparr>fs := fs'\<rparr>))"

definition updateMkcert ::
  "env \<Rightarrow> mkcert \<Rightarrow> bool \<Rightarrow> world \<Rightarrow> (error + unit) \<times> world" where
  "updateMkcert E m mkcertExist w =
     (case getSourceInfo E m of
        None \<Rightarrow>
          (Inr (),
           debug ''Can not get mkcert information, update skipped'' []
             (case sourceType m of
                Github \<Rightarrow>
                  debug (''If you are a user in china, maybe you should set '' @
                         [CHR 0x22] @ ''source'' @ [CHR 0x22] @ '' paramter to '' @
                         [CHR 0x22] @ ''coding'' @ [CHR 0x22]) []
                    (debug ''Failed to request mkcert information, please check your network''
                       [] w)
              | Coding \<Rightarrow>
                  debug ''Failed to request mkcert information, please check your network''
                    [] w
              | Custom r \<Rightarrow>
                  debug (''Please check your custom '' @ [CHR 0x22] @ ''source'' @
                         [CHR 0x22] @ '', it seems to return invalid result'') [] w))
      | Some sourceInfo \<Rightarrow>
          if mkcertExist
          then
            (let versionInfo = compare E (version w) (si_version sourceInfo)
             in if \<not> shouldUpdate versionInfo
                then (Inr (), debug ''Mkcert is kept latest version, update skipped'' [] w)
                else if breakingChange versionInfo
                then (Inr (),
                      debug (''The current version of mkcert is %s, and the latest version '' @
                             ''is %s, there may be some breaking changes, update skipped'')
                        [currentVersion versionInfo, Some (nextVersion versionInfo)] w)
                else
                  (case downloadMkcert E (downloadUrl sourceInfo) (mkcertSavedPath m)
                          (debug (''The current version of mkcert is %s, and the latest '' @
                                  ''version is %s, mkcert will be updated'')
                             [currentVersion versionInfo, Some (nextVersion versionInfo)] w) of
                     (Inl e, w1) \<Rightarrow> (Inl e, w1)
                   | (Inr u, w1) \<Rightarrow>
                       (Inr (), VersionManger_update (nextVersion versionInfo) w1)))
          else
            (case downloadMkcert E (downloadUrl sourceInfo) (mkcertSavedPath m)
                    (debug ''mkcert does not exist, download it now'' [] w) of
               (Inl e, w1) \<Rightarrow> (Inl e, w1)
             | (Inr u, w1) \<Rightarrow> (Inr (), VersionManger_update (si_version sourceInfo) w1)))"

definition init :: "env \<Rightarrow> mkcert \<Rightarrow> world \<Rightarrow> (error + unit) \<times> world" where
  "init E m w =
     (case checkMkcert E m (Config_init w) of
        (exist, w1) \<Rightarrow>
          if autoUpgrade m = Some True \<or> \<not> exist
          then updateMkcert E m exist w1
          else (Inr (), w1))"

definition renew ::
  "env \<Rightarrow> mkcert \<Rightarrow> string list \<Rightarrow> world \<Rightarrow> (error + unit) \<times> world" where
  "renew E m hs w =
     (if \<not> Record_contains w hs
      then regenerate E m hs
             (emit (LoggerInfo (''The hosts changed from ['' @
                                template_list (Record_getHosts w) @ ''] to ['' @
                                join '','' hs @ ''], start regenerate certificate'')) w)
      else
        (let h = getLatestHash E w
         in if Record_tamper w h
            then regenerate E m hs
                   (emit (LoggerInfo (''The hash changed from '' @
                                      prettyLog E (Record_getHash w) @ '' to '' @
                                      prettyLog E (Some h) @
                                      '', start regenerate certificate'')) w)
            else (Inr (),
                  debug ''Neither hosts nor hash has changed, skip regenerate certificate''
                    [] w)))"

definition install ::
  "env \<Rightarrow> mkcert \<Rightarrow> string list \<Rightarrow> world \<Rightarrow> (error + certificate) \<times> world" where
  "install E m hs w =
     (if hs \<noteq> []
      then (case renew E m hs w of
              (Inl e, w1) \<Rightarrow> (Inl e, w1)
            | (Inr u, w1) \<Rightarrow> getCertificate E w1)
      else getCertificate E w)"

subsection \<open>Observations on a run\<close>

text \<open>
  The events a call has added to the trace, the events that are diagnostics, the number of
  invocations of the external binary so far, and the outcome that is a rejected
  \<open>exec\<close>.
\<close>

definition newEvents :: "world \<Rightarrow> world \<Rightarrow> event list" where
  "newEvents w w' = drop (length (trace w)) (trace w')"

fun is_diagnostic :: "event \<Rightarrow> bool" where
  "is_diagnostic (LoggerError s) = True"
| "is_diagnostic (LoggerInfo s) = True"
| "is_diagnostic (Debug f a) = True"
| "is_diagnostic e = False"

fun is_Exec :: "event \<Rightarrow> bool" where
  "is_Exec (Exec c) = True"
| "is_Exec e = False"

definition execCount :: "world \<Rightarrow> nat" where
  "execCount w = length (filter is_Exec (trace w))"

fun execRejected :: "error + 'a \<Rightarrow> bool" where
  "execRejected (Inl (ExecFailed c)) = True"
| "execRejected r = False"

text \<open>
  The record agrees with a request when both checks of \<open>renew\<close> pass: the recorded
  hosts are the requested hosts, as sets, and the recorded hash is the live hash.
\<close>

definition recordMatches :: "env \<Rightarrow> string list \<Rightarrow> world \<Rightarrow> bool" where
  "recordMatches E hs w =
     (case certRecord w of
        None \<Rightarrow> False
      | Some c \<Rightarrow> set hs = set (hosts c) \<and> hash c = getLatestHash E w)"

text \<open>
  Names for parts of what the methods compute, used to state what a call returns: the
  error report of \<open>checkMkcert\<close>, the result of \<open>getMkcertBinnary\<close>, the events of
  \<open>createCertificate\<close> up to the invocation, its final message, the hash pair of a file
  system, and the first event of \<open>renew\<close>.
\<close>

definition localPathReport :: "env \<Rightarrow> mkcert \<Rightarrow> event list" where
  "localPathReport E m =
     (if truthy (mkcertLocalPath m)
      then [LoggerError (chalk_red E
              (template (mkcertLocalPath m) @
               '' does not exist, please check the mkcertPath paramter''))]
      else [])"

definition binaryAt :: "mkcert \<Rightarrow> filesystem \<Rightarrow> string option" where
  "binaryAt m f =
     (if f (js_or (mkcertLocalPath m) (mkcertSavedPath m)) = None then None
      else Some (js_or (mkcertLocalPath m) (mkcertSavedPath m)))"

definition createEvents :: "env \<Rightarrow> mkcert \<Rightarrow> string list \<Rightarrow> filesystem \<Rightarrow> event list" where
  "createEvents E m hs f =
     localPathReport E m @
     (if truthy (binaryAt m f) then []
      else [Debug (''Mkcert does not exist, unable to generate certificate for '' @
                   join '' '' hs) []]) @
     [EnsureDirExist (KEY_FILE_PATH E), EnsureDirExist (CERT_FILE_PATH E),
      Exec (cmd_of E (binaryAt m f) hs)]"

definition savedInfo :: "env \<Rightarrow> event" where
  "savedInfo E =
     LoggerInfo (''The certificate is saved in:'' @ [CHR 0x0A] @
                 KEY_FILE_PATH E @ [CHR 0x0A] @ CERT_FILE_PATH E)"

definition hashAt :: "env \<Rightarrow> filesystem \<Rightarrow> hash_pair" where
  "hashAt E f =
     \<lparr> hkey = map_option (digest E) (f (KEY_FILE_PATH E)),
       hcert = map_option (digest E) (f (CERT_FILE_PATH E)) \<rparr>"

definition renewNotice :: "env \<Rightarrow> string list \<Rightarrow> world \<Rightarrow> event" where
  "renewNotice E hs w =
     (if \<not> Record_contains w hs
      then LoggerInfo (''The hosts changed from ['' @ template_list (Record_getHosts w) @
                       ''] to ['' @ join '','' hs @ ''], start regenerate certificate'')
      else if Record_tamper w (getLatestHash E w)
      then LoggerInfo (''The hash changed from '' @ prettyLog E (Record_getHash w) @
                       '' to '' @ prettyLog E (Some (getLatestHash E w)) @
                       '', start regenerate certificate'')
      else Debug ''Neither hosts nor hash has changed, skip regenerate certificate'' [])"

text \<open>What reading the two certificate files of a file system gives.\<close>

definition certificateAt :: "env \<Rightarrow> filesystem \<Rightarrow> error + certificate" where
  "certificateAt E f =
     (case f (resolvePath E ''certs/dev.key'') of
        None \<Rightarrow> Inl (ReadFailed (resolvePath E ''certs/dev.key''))
      | Some k \<Rightarrow>
          (case f (resolvePath E ''certs/dev.pem'') of
             None \<Rightarrow> Inl (ReadFailed (resolvePath E ''certs/dev.pem''))
           | Some c \<Rightarrow> Inr \<lparr> key = k, cert = c \<rparr>))"

subsection \<open>A sample installation\<close>

text \<open>
  Concrete collaborators, instances and worlds on which the properties below are run: a
  data directory \<open>/d\<close>, a binary that writes the two certificate files, a binary that
  fails, a GitHub source that is unreachable and a Coding source that offers \<open>v2.0.0\<close>.
\<close>

definition demoCompare :: "string option \<Rightarrow> string \<Rightarrow> version_info" where
  "demoCompare cur latest =
     \<lparr> currentVersion = cur, nextVersion = latest,
       shouldUpdate = (cur \<noteq> Some latest),
       breakingChange = (cur \<noteq> Some latest \<and> map_option (take 2) cur \<noteq> Some (take 2 latest)) \<rparr>"

definition demoExec :: "string \<Rightarrow> filesystem \<Rightarrow> filesystem option" where
  "demoExec cmd f =
     Some (f(''/d/certs/dev.key'' \<mapsto> ''key of '' @ cmd,
             ''/d/certs/dev.pem'' \<mapsto> ''cert of '' @ cmd))"

fun demoPrettyLog :: "hash_pair option \<Rightarrow> string" where
  "demoPrettyLog None = ''undefined''"
| "demoPrettyLog (Some p) = template (hkey p) @ ''+'' @ template (hcert p)"

definition demoDownload :: "string \<Rightarrow> string \<Rightarrow> filesystem \<Rightarrow> filesystem option" where
  "demoDownload url p f = Some (f(p \<mapsto> ''binary of '' @ url))"

definition demoResolvePath :: "string \<Rightarrow> string" where
  "demoResolvePath f = ''/d/'' @ f"

definition demoDigest :: "string \<Rightarrow> string" where
  "demoDigest c = ''#'' @ c"

definition rejectingExec :: "string \<Rightarrow> filesystem \<Rightarrow> filesystem option" where
  "rejectingExec cmd f = None"

definition demoEnv :: env where
  "demoEnv =
     \<lparr> resolvePath = demoResolvePath,
       platform = ''linux'',
       chalk_red = id,
       prettyLog = demoPrettyLog,
       digest = demoDigest,
       exec = demoExec,
       download = demoDownload,
       githubSource = None,
       codingSource = Some \<lparr> si_version = ''v2.0.0'', downloadUrl = ''https://e.org/mkcert'' \<rparr>,
       compare = demoCompare \<rparr>"

definition failingEnv :: env where
  "failingEnv = demoEnv\<lparr>exec := rejectingExec\<rparr>"

definition demoMkcert :: mkcert where
  "demoMkcert =
     create demoEnv \<lparr> opt_autoUpgrade = None, opt_source = None, opt_mkcertPath = None \<rparr>"

definition codingMkcert :: mkcert where
  "codingMkcert =
     create demoEnv
       \<lparr> opt_autoUpgrade = Some True, opt_source = Some Coding, opt_mkcertPath = None \<rparr>"

definition localMkcert :: mkcert where
  "localMkcert =
     create demoEnv
       \<lparr> opt_autoUpgrade = None, opt_source = None, opt_mkcertPath = Some ''/bin/mkcert'' \<rparr>"

definition demoWorld :: world where
  "demoWorld =
     \<lparr> fs = [''/d/mkcert'' \<mapsto> ''ELF'', ''/bin/mkcert'' \<mapsto> ''ELF'',
             ''/d/certs/dev.key'' \<mapsto> ''K0'', ''/d/certs/dev.pem'' \<mapsto> ''C0''],
       version = Some ''v1.4.3'',
       certRecord = Some \<lparr> hosts = [''localhost''],
                            hash = \<lparr> hkey = Some ''#K0'', hcert = Some ''#C0'' \<rparr> \<rparr>,
       trace = [] \<rparr>"

definition emptyWorld :: world where
  "emptyWorld = \<lparr> fs = Map.empty, version = None, certRecord = None, trace = [] \<rparr>"

text \<open>
  A world whose key file no longer has the recorded hash, with the binary in place.
\<close>

definition staleWorld :: world where
  "staleWorld =
     \<lparr> fs = [''/d/mkcert'' \<mapsto> ''ELF'',
             ''/d/certs/dev.key'' \<mapsto> ''K9'', ''/d/certs/dev.pem'' \<mapsto> ''C0''],
       version = Some ''v1.4.3'',
       certRecord = Some \<lparr> hosts = [''localhost''],
                            hash = \<lparr> hkey = Some ''#K0'', hcert = Some ''#C0'' \<rparr> \<rparr>,
       trace = [] \<rparr>"

section \<open>Properties\<close>

text \<open>Unfolding the sample data, and running the methods on it.\<close>

lemmas demo_defs = demoDownload_def demoResolvePath_def demoDigest_def rejectingExec_def
  demoCompare_def demoExec_def demoEnv_def failingEnv_def demoMkcert_def
  codingMkcert_def localMkcert_def demoWorld_def emptyWorld_def staleWorld_def create_def

lemmas run_defs = emit_def debug_def exists_file_def getHash_def ensureDirExist_def
  Record_getHosts_def Record_getHash_def Record_contains_def Record_tamper_def Record_update_def
  checkMkcert_def getMkcertBinnary_def getCertificate_def createCertificate_def cmd_of_def
  getLatestHash_def regenerate_def renew_def install_def KEY_FILE_PATH_def CERT_FILE_PATH_def
  execCount_def newEvents_def Let_def

subsection \<open>What each method returns\<close>

lemma getLatestHash_hashAt: "getLatestHash E w = hashAt E (fs w)"
  by (simp add: getLatestHash_def getHash_def hashAt_def)

lemma fst_checkMkcert:
  "fst (checkMkcert E m w) = (fs w (js_or (mkcertLocalPath m) (mkcertSavedPath m)) \<noteq> None)"
  by (cases "mkcertLocalPath m") (auto simp add: checkMkcert_def exists_file_def)

lemma snd_checkMkcert:
  "snd (checkMkcert E m w) = w\<lparr>trace := trace w @ localPathReport E m\<rparr>"
  by (simp add: checkMkcert_def localPathReport_def emit_def)

lemma getMkcertBinnary_eq:
  "getMkcertBinnary E m w = (binaryAt m (fs w), w\<lparr>trace := trace w @ localPathReport E m\<rparr>)"
  using fst_checkMkcert [of E m w] snd_checkMkcert [of E m w]
  by (cases "checkMkcert E m w") (simp add: getMkcertBinnary_def binaryAt_def)

lemma createCertificate_eq:
  "createCertificate E m hs w =
     (case exec E (cmd_of E (binaryAt m (fs w)) hs) (fs w) of
        None \<Rightarrow>
          (Inl (ExecFailed (cmd_of E (binaryAt m (fs w)) hs)),
           w\<lparr>trace := trace w @ createEvents E m hs (fs w)\<rparr>)
      | Some fs' \<Rightarrow>
          (Inr (),
           w\<lparr>fs := fs', trace := trace w @ createEvents E m hs (fs w) @ [savedInfo E]\<rparr>))"
  by (simp add: createCertificate_def getMkcertBinnary_eq createEvents_def savedInfo_def
      ensureDirExist_def debug_def emit_def Let_def split: option.splits)

lemma regenerate_eq:
  "regenerate E m hs w =
     (case exec E (cmd_of E (binaryAt m (fs w)) hs) (fs w) of
        None \<Rightarrow>
          (Inl (ExecFailed (cmd_of E (binaryAt m (fs w)) hs)),
           w\<lparr>trace := trace w @ createEvents E m hs (fs w)\<rparr>)
      | Some fs' \<Rightarrow>
          (Inr (),
           w\<lparr>fs := fs', certRecord := Some \<lparr> hosts = hs, hash = hashAt E fs' \<rparr>,
             trace := trace w @ createEvents E m hs (fs w) @ [savedInfo E]\<rparr>))"
  by (simp add: regenerate_def createCertificate_eq Record_update_def getLatestHash_hashAt
      split: option.splits)

lemma createEvents_shape:
  "\<exists>pre. createEvents E m hs f =
           pre @ [EnsureDirExist (KEY_FILE_PATH E), EnsureDirExist (CERT_FILE_PATH E),
                  Exec (cmd_of E (binaryAt m f) hs)] \<and>
         list_all is_diagnostic pre"
  by (simp add: createEvents_def localPathReport_def)

lemma count_createEvents: "length (filter is_Exec (createEvents E m hs f)) = 1"
  by (simp add: createEvents_def localPathReport_def)

lemma recordMatches_iff:
  "recordMatches E hs w = (Record_contains w hs \<and> \<not> Record_tamper w (getLatestHash E w))"
  by (auto simp add: recordMatches_def Record_contains_def Record_tamper_def
      Record_getHosts_def Record_getHash_def split: option.splits)

lemma renew_eq:
  "renew E m hs w =
     (if recordMatches E hs w
      then (Inr (), w\<lparr>trace := trace w @ [renewNotice E hs w]\<rparr>)
      else
        (case exec E (cmd_of E (binaryAt m (fs w)) hs) (fs w) of
           None \<Rightarrow>
             (Inl (ExecFailed (cmd_of E (binaryAt m (fs w)) hs)),
              w\<lparr>trace := trace w @ renewNotice E hs w # createEvents E m hs (fs w)\<rparr>)
         | Some fs' \<Rightarrow>
             (Inr (),
              w\<lparr>fs := fs', certRecord := Some \<lparr> hosts = hs, hash = hashAt E fs' \<rparr>,
                trace := trace w @ renewNotice E hs w # createEvents E m hs (fs w) @
                         [savedInfo E]\<rparr>)))"
  by (simp add: recordMatches_iff renew_def renewNotice_def regenerate_eq emit_def debug_def
      Let_def split: option.splits)

lemma install_eq:
  "hs \<noteq> [] \<Longrightarrow>
   install E m hs w =
     (case fst (renew E m hs w) of
        Inl e \<Rightarrow> Inl e
      | Inr u \<Rightarrow> fst (getCertificate E (snd (renew E m hs w))),
      snd (renew E m hs w))"
  by (cases "renew E m hs w")
     (auto simp add: install_def getCertificate_def split: sum.splits option.splits)

lemma fst_getCertificate_fs:
  "fs w' = fs w \<Longrightarrow> fst (getCertificate E w') = fst (getCertificate E w)"
  by (simp add: getCertificate_def split: option.splits)

lemma install_post:
  assumes "hs \<noteq> []" and "\<not> execRejected (fst (install E m hs w))"
  shows "recordMatches E hs (snd (install E m hs w))"
proof (cases "recordMatches E hs w")
  case True
  then show ?thesis
    using assms(1)
    by (simp add: install_eq renew_eq recordMatches_def getLatestHash_hashAt
        split: option.splits)
next
  case False
  show ?thesis
  proof (cases "exec E (cmd_of E (binaryAt m (fs w)) hs) (fs w)")
    case None
    then show ?thesis
      using assms False by (simp add: install_eq renew_eq)
  next
    case (Some f)
    then show ?thesis
      using assms(1) False
      by (simp add: install_eq renew_eq recordMatches_def getLatestHash_hashAt
        split: option.splits)
  qed
qed

lemma not_Exec_renewNotice: "\<not> is_Exec (renewNotice E hs w)"
  by (simp add: renewNotice_def)

lemma not_Exec_savedInfo: "\<not> is_Exec (savedInfo E)"
  by (simp add: savedInfo_def)

lemma execCount_renew:
  "execCount (snd (renew E m hs w)) = execCount w + (if recordMatches E hs w then 0 else 1)"
  by (cases "exec E (cmd_of E (binaryAt m (fs w)) hs) (fs w)")
     (simp_all add: renew_eq execCount_def count_createEvents not_Exec_renewNotice
        not_Exec_savedInfo)

lemma newEvents_renew:
  "take 1 (newEvents w (snd (renew E m hs w))) = [renewNotice E hs w]"
  by (cases "exec E (cmd_of E (binaryAt m (fs w)) hs) (fs w)")
     (simp_all add: renew_eq newEvents_def)

lemma renew_keeps:
  "recordMatches E hs w \<Longrightarrow>
     fst (renew E m hs w) = Inr () \<and>
     fs (snd (renew E m hs w)) = fs w \<and>
     certRecord (snd (renew E m hs w)) = certRecord w \<and>
     version (snd (renew E m hs w)) = version w"
  by (simp add: renew_eq)

lemma getCertificate_eq: "getCertificate E w = (certificateAt E (fs w), w)"
  by (simp add: getCertificate_def certificateAt_def KEY_FILE_PATH_def CERT_FILE_PATH_def
      split: option.splits)

lemma install_cases:
  assumes "hs \<noteq> []"
  shows "install E m hs w =
     (if recordMatches E hs w
      then (certificateAt E (fs w), w\<lparr>trace := trace w @ [renewNotice E hs w]\<rparr>)
      else
        (case exec E (cmd_of E (binaryAt m (fs w)) hs) (fs w) of
           None \<Rightarrow>
             (Inl (ExecFailed (cmd_of E (binaryAt m (fs w)) hs)),
              w\<lparr>trace := trace w @ renewNotice E hs w # createEvents E m hs (fs w)\<rparr>)
         | Some f \<Rightarrow>
             (certificateAt E f,
              w\<lparr>fs := f, certRecord := Some \<lparr> hosts = hs, hash = hashAt E f \<rparr>,
                trace := trace w @ renewNotice E hs w # createEvents E m hs (fs w) @
                         [savedInfo E]\<rparr>)))"
proof (cases "recordMatches E hs w")
  case True
  then show ?thesis
    using assms by (simp add: install_eq renew_eq getCertificate_eq)
next
  case False
  then show ?thesis
    using assms
    by (cases "exec E (cmd_of E (binaryAt m (fs w)) hs) (fs w)")
       (simp_all add: install_eq renew_eq getCertificate_eq)
qed

lemma cmd_of_binaryAt:
  "cmd_of E (binaryAt m f) hs =
     (if f (js_or (mkcertLocalPath m) (mkcertSavedPath m)) = None then ''undefined''
      else js_or (mkcertLocalPath m) (mkcertSavedPath m)) @
     '' -install -key-file '' @ resolvePath E ''certs/dev.key'' @
     '' -cert-file '' @ resolvePath E ''certs/dev.pem'' @ '' '' @ join '' '' hs"
  by (simp add: cmd_of_def binaryAt_def KEY_FILE_PATH_def CERT_FILE_PATH_def)

lemma hashAt_files:
  "hashAt E f =
     \<lparr> hkey = map_option (digest E) (f (resolvePath E ''certs/dev.key'')),
       hcert = map_option (digest E) (f (resolvePath E ''certs/dev.pem'')) \<rparr>"
  by (simp add: hashAt_def KEY_FILE_PATH_def CERT_FILE_PATH_def)

lemma recordMatches_files:
  "recordMatches E hs w =
     (case certRecord w of
        None \<Rightarrow> False
      | Some c \<Rightarrow> set hs = set (hosts c) \<and> hash c = hashAt E (fs w))"
  by (simp add: recordMatches_def getLatestHash_hashAt split: option.splits)

lemma Exec_in_createEvents: "Exec (cmd_of E (binaryAt m f) hs) \<in> set (createEvents E m hs f)"
  by (simp add: createEvents_def)

lemma renewNotice_files:
  "renewNotice E hs w =
     (if (case certRecord w of None \<Rightarrow> True | Some c \<Rightarrow> set hs \<noteq> set (hosts c))
      then LoggerInfo (''The hosts changed from ['' @
                       (case certRecord w of None \<Rightarrow> ''undefined''
                        | Some c \<Rightarrow> join '','' (hosts c)) @
                       ''] to ['' @ join '','' hs @ ''], start regenerate certificate'')
      else if (case certRecord w of None \<Rightarrow> True | Some c \<Rightarrow> hash c \<noteq> hashAt E (fs w))
      then LoggerInfo (''The hash changed from '' @
                       prettyLog E (map_option hash (certRecord w)) @ '' to '' @
                       prettyLog E (Some (hashAt E (fs w))) @
                       '', start regenerate certificate'')
      else Debug ''Neither hosts nor hash has changed, skip regenerate certificate'' [])"
  by (cases "certRecord w")
     (simp_all add: renewNotice_def Record_contains_def Record_tamper_def Record_getHosts_def
        Record_getHash_def getLatestHash_hashAt)

lemma recordMatches_differ:
  "recordMatches E hs w =
     (\<not> ((case certRecord w of None \<Rightarrow> True | Some c \<Rightarrow> set hs \<noteq> set (hosts c)) \<or>
         (case certRecord w of None \<Rightarrow> True | Some c \<Rightarrow> hash c \<noteq> hashAt E (fs w))))"
  by (simp add: recordMatches_files split: option.splits)

lemma install_post_files:
  assumes "hs \<noteq> []" and "\<not> execRejected (fst (install E m hs w))"
    and "w1 = snd (install E m hs w)"
  shows "\<exists>c. certRecord w1 = Some c \<and> set hs = set (hosts c) \<and> hash c = hashAt E (fs w1)"
  using install_post [OF assms(1,2)] assms(3)
  by (simp add: recordMatches_files split: option.splits)

subsection \<open>The regeneration decision\<close>

text \<open>
  Claim C1. For a non-empty host list, \<open>install\<close> regenerates exactly when no record
  is persisted, when the requested hosts differ as a set from the recorded hosts, or when
  the digests of the two certificate files on disk differ from the recorded hash. To
  regenerate is to run \<open>exec\<close> once on the generation command and the files on disk:
  when \<open>exec\<close> rejects, the failure is returned and files and record stay as they
  were; when it returns, the files are the ones it returned, the record holds the
  requested hosts and the digests of the new files, and the result is the content of the
  new files. When nothing differs, \<open>exec\<close> is not run, only the skip message is
  emitted, and the result is the content of the two files on disk (the read error of the
  first missing one if they are not there). The host check comes first: the first event
  is the hosts message when the hosts differ, the hash message when only the hash differs.
\<close>

theorem install_regenerates_iff:
  assumes "hs \<noteq> []"
  shows
    "let keyPath = resolvePath E ''certs/dev.key'';
         certPath = resolvePath E ''certs/dev.pem'';
         hashOf = (\<lambda>f. \<lparr> hkey = map_option (digest E) (f keyPath),
                         hcert = map_option (digest E) (f certPath) \<rparr>);
         contentOf = (\<lambda>f. case f keyPath of
                             None \<Rightarrow> Inl (ReadFailed keyPath)
                           | Some k \<Rightarrow>
                               (case f certPath of
                                  None \<Rightarrow> Inl (ReadFailed certPath)
                                | Some c \<Rightarrow> Inr \<lparr> key = k, cert = c \<rparr>));
         hostsDiffer = (case certRecord w of
                          None \<Rightarrow> True
                        | Some c \<Rightarrow> set hs \<noteq> set (hosts c));
         hashDiffers = (case certRecord w of
                          None \<Rightarrow> True
                        | Some c \<Rightarrow> hash c \<noteq> hashOf (fs w));
         binary = js_or (mkcertLocalPath m) (mkcertSavedPath m);
         cmd = (if fs w binary = None then ''undefined'' else binary) @
               '' -install -key-file '' @ keyPath @ '' -cert-file '' @ certPath @
               '' '' @ join '' '' hs;
         skip = Debug ''Neither hosts nor hash has changed, skip regenerate certificate'' [];
         r = install E m hs w
     in (if hostsDiffer \<or> hashDiffers
         then execCount (snd r) = execCount w + 1 \<and>
              Exec cmd \<in> set (newEvents w (snd r)) \<and>
              version (snd r) = version w \<and>
              (case exec E cmd (fs w) of
                 None \<Rightarrow>
                   fst r = Inl (ExecFailed cmd) \<and> fs (snd r) = fs w \<and>
                   certRecord (snd r) = certRecord w
               | Some f \<Rightarrow>
                   fst r = contentOf f \<and> fs (snd r) = f \<and>
                   certRecord (snd r) = Some \<lparr> hosts = hs, hash = hashOf f \<rparr>)
         else r = (contentOf (fs w), w\<lparr>trace := trace w @ [skip]\<rparr>) \<and>
              execCount (snd r) = execCount w) \<and>
        take 1 (newEvents w (snd r)) =
          [if hostsDiffer
           then LoggerInfo (''The hosts changed from ['' @
                            (case certRecord w of None \<Rightarrow> ''undefined''
                             | Some c \<Rightarrow> join '','' (hosts c)) @
                            ''] to ['' @ join '','' hs @ ''], start regenerate certificate'')
           else if hashDiffers
           then LoggerInfo (''The hash changed from '' @
                            prettyLog E (map_option hash (certRecord w)) @ '' to '' @
                            prettyLog E (Some (hashOf (fs w))) @
                            '', start regenerate certificate'')
           else skip]"
proof -
  have first: "take 1 (newEvents w (snd (install E m hs w))) = [renewNotice E hs w]"
    using assms by (simp add: install_eq newEvents_renew del: One_nat_def)
  have cnt: "execCount (snd (install E m hs w)) =
               execCount w + (if recordMatches E hs w then 0 else 1)"
    using assms by (simp add: install_eq execCount_renew)
  have ev: "Exec (cmd_of E (binaryAt m (fs w)) hs) \<in> set (newEvents w (snd (install E m hs w)))"
    if "\<not> recordMatches E hs w"
    using that Exec_in_createEvents [of E m "fs w" hs]
    by (cases "exec E (cmd_of E (binaryAt m (fs w)) hs) (fs w)")
       (simp_all add: install_cases [OF assms] newEvents_def)
  have res: "\<not> recordMatches E hs w \<Longrightarrow>
       version (snd (install E m hs w)) = version w \<and>
       (case exec E (cmd_of E (binaryAt m (fs w)) hs) (fs w) of
          None \<Rightarrow>
            fst (install E m hs w) = Inl (ExecFailed (cmd_of E (binaryAt m (fs w)) hs)) \<and>
            fs (snd (install E m hs w)) = fs w \<and>
            certRecord (snd (install E m hs w)) = certRecord w
        | Some f \<Rightarrow>
            fst (install E m hs w) = certificateAt E f \<and> fs (snd (install E m hs w)) = f \<and>
            certRecord (snd (install E m hs w)) = Some \<lparr> hosts = hs, hash = hashAt E f \<rparr>)"
    by (simp add: install_cases [OF assms] split: option.splits)
  have skip: "recordMatches E hs w \<Longrightarrow>
       install E m hs w =
         (certificateAt E (fs w),
          w\<lparr>trace := trace w @
             [Debug ''Neither hosts nor hash has changed, skip regenerate certificate'' []]\<rparr>)"
    using renewNotice_files [of E hs w]
    by (simp add: install_cases [OF assms] recordMatches_differ)
  show ?thesis
  proof (cases "recordMatches E hs w")
    case True
    note d = True [unfolded recordMatches_differ]
    show ?thesis
      unfolding Let_def first cnt
      unfolding cmd_of_binaryAt [symmetric] hashAt_files [symmetric]
        certificateAt_def [symmetric]
      using True d skip [OF True] by (simp add: renewNotice_files)
  next
    case False
    note d = False [unfolded recordMatches_differ]
    show ?thesis
      unfolding Let_def first cnt
      unfolding cmd_of_binaryAt [symmetric] hashAt_files [symmetric]
        certificateAt_def [symmetric]
      using False d res [OF False] ev [OF False] by (simp add: renewNotice_files)
  qed
qed

theorem install_regenerates_iff_witness:
  "[''localhost'', ''127.0.0.1''] \<noteq> [] \<and>
   fst (install demoEnv demoMkcert [''localhost'', ''127.0.0.1''] demoWorld) =
     Inr \<lparr> key = ''key of /d/mkcert -install -key-file /d/certs/dev.key '' @
                  ''-cert-file /d/certs/dev.pem localhost 127.0.0.1'',
           cert = ''cert of /d/mkcert -install -key-file /d/certs/dev.key '' @
                  ''-cert-file /d/certs/dev.pem localhost 127.0.0.1'' \<rparr> \<and>
   certRecord (snd (install demoEnv demoMkcert [''localhost'', ''127.0.0.1''] demoWorld)) =
     Some \<lparr> hosts = [''localhost'', ''127.0.0.1''],
            hash = \<lparr> hkey = Some (''#key of /d/mkcert -install -key-file /d/certs/dev.key '' @
                                  ''-cert-file /d/certs/dev.pem localhost 127.0.0.1''),
                     hcert = Some (''#cert of /d/mkcert -install -key-file /d/certs/dev.key '' @
                                   ''-cert-file /d/certs/dev.pem localhost 127.0.0.1'') \<rparr> \<rparr> \<and>
   execCount (snd (install demoEnv demoMkcert [''localhost'', ''127.0.0.1''] demoWorld)) = 1 \<and>
   take 1 (newEvents demoWorld
             (snd (install demoEnv demoMkcert [''localhost'', ''127.0.0.1''] demoWorld))) =
     [LoggerInfo (''The hosts changed from [localhost] to [localhost,127.0.0.1], '' @
                  ''start regenerate certificate'')]"
  using install_regenerates_iff
          [where hs = "[''localhost'', ''127.0.0.1'']" and E = demoEnv and m = demoMkcert
             and w = demoWorld]
  by (simp add: demo_defs execCount_def Let_def del: One_nat_def)

text \<open>
  Claim C2, amended. When a call of \<open>install\<close> with a non-empty host list has not been
  rejected by \<open>exec\<close>, a second call with the same hosts on the world the first one
  left does not run \<open>exec\<close>: it only emits the skip message, leaves the files and the
  record as they are and returns the content of the two files on disk. Both calls together
  run \<open>exec\<close> at most once.
\<close>

theorem install_twice_regenerates_once:
  assumes "hs \<noteq> []" and "\<not> execRejected (fst (install E m hs w))"
    and "w1 = snd (install E m hs w)"
  shows "install E m hs w1 =
           (case fs w1 (resolvePath E ''certs/dev.key'') of
              None \<Rightarrow> Inl (ReadFailed (resolvePath E ''certs/dev.key''))
            | Some k \<Rightarrow>
                (case fs w1 (resolvePath E ''certs/dev.pem'') of
                   None \<Rightarrow> Inl (ReadFailed (resolvePath E ''certs/dev.pem''))
                 | Some c \<Rightarrow> Inr \<lparr> key = k, cert = c \<rparr>),
            w1\<lparr>trace := trace w1 @
               [Debug ''Neither hosts nor hash has changed, skip regenerate certificate''
                  []]\<rparr>) \<and>
         execCount (snd (install E m hs w1)) = execCount w1 \<and>
         execCount (snd (install E m hs w1)) \<le> execCount w + 1 \<and>
         fs (snd (install E m hs w1)) = fs w1 \<and>
         certRecord (snd (install E m hs w1)) = certRecord w1 \<and>
         newEvents w1 (snd (install E m hs w1)) =
           [Debug ''Neither hosts nor hash has changed, skip regenerate certificate'' []]"
proof -
  have rm: "recordMatches E hs w1"
    using install_post [OF assms(1,2)] assms(3) by simp
  have c1: "execCount w1 \<le> execCount w + 1"
    using assms(1) unfolding assms(3)
    by (simp add: install_eq execCount_renew)
  have n: "renewNotice E hs w1 =
             Debug ''Neither hosts nor hash has changed, skip regenerate certificate'' []"
    using rm by (simp add: renewNotice_def recordMatches_iff)
  have i: "install E m hs w1 =
             (certificateAt E (fs w1),
              w1\<lparr>trace := trace w1 @
                 [Debug ''Neither hosts nor hash has changed, skip regenerate certificate''
                    []]\<rparr>)"
    using rm n by (simp add: install_cases [OF assms(1)])
  show ?thesis
    unfolding certificateAt_def [symmetric] i
    using c1 by (simp add: execCount_def newEvents_def)
qed

theorem install_twice_regenerates_once_witness:
  "[''localhost'', ''127.0.0.1''] \<noteq> [] \<and>
   \<not> execRejected (fst (install demoEnv demoMkcert [''localhost'', ''127.0.0.1''] demoWorld)) \<and>
   execCount (snd (install demoEnv demoMkcert [''localhost'', ''127.0.0.1''] demoWorld)) = 1 \<and>
   execCount (snd (install demoEnv demoMkcert [''localhost'', ''127.0.0.1'']
                     (snd (install demoEnv demoMkcert [''localhost'', ''127.0.0.1'']
                             demoWorld)))) = 1 \<and>
   fs (snd (install demoEnv demoMkcert [''localhost'', ''127.0.0.1'']
              (snd (install demoEnv demoMkcert [''localhost'', ''127.0.0.1''] demoWorld)))) =
     fs (snd (install demoEnv demoMkcert [''localhost'', ''127.0.0.1''] demoWorld))"
proof -
  let ?hs = "[''localhost'', ''127.0.0.1'']"
  let ?w1 = "snd (install demoEnv demoMkcert ?hs demoWorld)"
  have ok: "\<not> execRejected (fst (install demoEnv demoMkcert ?hs demoWorld))"
    by (simp add: run_defs demo_defs)
  have one: "execCount ?w1 = 1"
    by (simp add: run_defs demo_defs)
  have ne: "?hs \<noteq> []" by simp
  note t = install_twice_regenerates_once [OF ne ok refl]
  have same: "execCount (snd (install demoEnv demoMkcert ?hs ?w1)) = execCount ?w1"
    using t [THEN conjunct2, THEN conjunct1] .
  have files: "fs (snd (install demoEnv demoMkcert ?hs ?w1)) = fs ?w1"
    using t [THEN conjunct2, THEN conjunct2, THEN conjunct2, THEN conjunct1] .
  show ?thesis
    using ok one same files by simp
qed

text \<open>
  Without the condition on the first call the property fails: when \<open>exec\<close> rejects
  the command, the record is not updated, and a second call on the untouched files runs
  \<open>exec\<close> again.
\<close>

theorem install_twice_counterexample:
  "execCount demoWorld = 0 \<and>
   fst (install failingEnv demoMkcert [''localhost'', ''127.0.0.1''] demoWorld) =
     Inl (ExecFailed (''/d/mkcert -install -key-file /d/certs/dev.key '' @
                      ''-cert-file /d/certs/dev.pem localhost 127.0.0.1'')) \<and>
   fs (snd (install failingEnv demoMkcert [''localhost'', ''127.0.0.1''] demoWorld)) =
     fs demoWorld \<and>
   execCount (snd (install failingEnv demoMkcert [''localhost'', ''127.0.0.1'']
                     (snd (install failingEnv demoMkcert [''localhost'', ''127.0.0.1'']
                             demoWorld)))) = 2"
  by (simp add: run_defs demo_defs)

text \<open>
  Claim C3. With the empty host list, \<open>install\<close> changes nothing (no event is emitted,
  so neither \<open>renew\<close> nor the external binary has run) and returns the content of the
  two fixed files, or the read error of the first of them that is missing.
\<close>

theorem install_empty_hosts:
  "snd (install E m [] w) = w \<and>
   fst (install E m [] w) =
     (case fs w (resolvePath E ''certs/dev.key'') of
        None \<Rightarrow> Inl (ReadFailed (resolvePath E ''certs/dev.key''))
      | Some k \<Rightarrow>
          (case fs w (resolvePath E ''certs/dev.pem'') of
             None \<Rightarrow> Inl (ReadFailed (resolvePath E ''certs/dev.pem''))
           | Some c \<Rightarrow> Inr \<lparr> key = k, cert = c \<rparr>))"
  by (simp add: install_def getCertificate_def KEY_FILE_PATH_def CERT_FILE_PATH_def
      split: option.splits)

theorem install_empty_hosts_witness:
  "install demoEnv demoMkcert [] demoWorld = (Inr \<lparr> key = ''K0'', cert = ''C0'' \<rparr>, demoWorld) \<and>
   install demoEnv demoMkcert [] emptyWorld = (Inl (ReadFailed ''/d/certs/dev.key''), emptyWorld)"
  using install_empty_hosts [of demoEnv demoMkcert demoWorld]
    install_empty_hosts [of demoEnv demoMkcert emptyWorld]
  by (simp add: demo_defs prod_eq_iff)

text \<open>
  Claim C4, amended. After a call of \<open>install\<close> that \<open>exec\<close> has not rejected,
  the record holds the digests of the files the call left. When the files are then
  replaced so that the digest of the key file or of the certificate file differs, the next
  call with the same hosts reports the change from the recorded hash to the live one and
  runs \<open>exec\<close> once on the generation command and the replaced files: when it
  returns, the files are the ones it returned, the record holds the hosts and the digests
  of the new files, and the result is the content of the new files; when it rejects, the
  failure is returned and the record stays as it was.
\<close>

theorem tampered_certificate_is_regenerated:
  assumes "hs \<noteq> []" and "\<not> execRejected (fst (install E m hs w))"
    and "w1 = snd (install E m hs w)"
    and "map_option (digest E) (f' (resolvePath E ''certs/dev.key'')) \<noteq>
           map_option (digest E) (fs w1 (resolvePath E ''certs/dev.key'')) \<or>
         map_option (digest E) (f' (resolvePath E ''certs/dev.pem'')) \<noteq>
           map_option (digest E) (fs w1 (resolvePath E ''certs/dev.pem''))"
  shows
    "let keyPath = resolvePath E ''certs/dev.key'';
         certPath = resolvePath E ''certs/dev.pem'';
         hashOf = (\<lambda>f. \<lparr> hkey = map_option (digest E) (f keyPath),
                         hcert = map_option (digest E) (f certPath) \<rparr>);
         contentOf = (\<lambda>f. case f keyPath of
                             None \<Rightarrow> Inl (ReadFailed keyPath)
                           | Some k \<Rightarrow>
                               (case f certPath of
                                  None \<Rightarrow> Inl (ReadFailed certPath)
                                | Some c \<Rightarrow> Inr \<lparr> key = k, cert = c \<rparr>));
         binary = js_or (mkcertLocalPath m) (mkcertSavedPath m);
         cmd = (if f' binary = None then ''undefined'' else binary) @
               '' -install -key-file '' @ keyPath @ '' -cert-file '' @ certPath @
               '' '' @ join '' '' hs;
         r = install E m hs (w1\<lparr>fs := f'\<rparr>)
     in map_option hash (certRecord w1) = Some (hashOf (fs w1)) \<and>
        take 1 (newEvents (w1\<lparr>fs := f'\<rparr>) (snd r)) =
          [LoggerInfo (''The hash changed from '' @ prettyLog E (Some (hashOf (fs w1))) @
                       '' to '' @ prettyLog E (Some (hashOf f')) @
                       '', start regenerate certificate'')] \<and>
        execCount (snd r) = execCount w1 + 1 \<and>
        Exec cmd \<in> set (newEvents (w1\<lparr>fs := f'\<rparr>) (snd r)) \<and>
        (case exec E cmd f' of
           None \<Rightarrow>
             fst r = Inl (ExecFailed cmd) \<and> fs (snd r) = f' \<and>
             certRecord (snd r) = certRecord w1
         | Some f \<Rightarrow>
             fst r = contentOf f \<and> fs (snd r) = f \<and>
             certRecord (snd r) = Some \<lparr> hosts = hs, hash = hashOf f \<rparr>)"
proof -
  let ?w = "w1\<lparr>fs := f'\<rparr>"
  let ?cmd = "cmd_of E (binaryAt m f') hs"
  obtain c where c: "certRecord w1 = Some c" "set hs = set (hosts c)"
    "hash c = hashAt E (fs w1)"
    using install_post_files [OF assms(1,2,3)] by blast
  have ne: "hashAt E f' \<noteq> hashAt E (fs w1)"
    using assms(4) by (auto simp add: hashAt_files)
  have nrm: "\<not> recordMatches E hs ?w"
    using c ne by (simp add: recordMatches_files)
  have n: "renewNotice E hs ?w =
             LoggerInfo (''The hash changed from '' @ prettyLog E (Some (hashAt E (fs w1))) @
                         '' to '' @ prettyLog E (Some (hashAt E f')) @
                         '', start regenerate certificate'')"
    using c ne by (simp add: renewNotice_files)
  have first: "take 1 (newEvents ?w (snd (install E m hs ?w))) = [renewNotice E hs ?w]"
    using assms(1) by (simp add: install_eq newEvents_renew del: One_nat_def)
  have e: "execCount ?w = execCount w1"
    by (simp add: execCount_def)
  have cnt: "execCount (snd (install E m hs ?w)) = execCount w1 + 1"
    using assms(1) nrm by (simp add: install_eq execCount_renew e)
  have ev: "Exec ?cmd \<in> set (newEvents ?w (snd (install E m hs ?w)))"
    using nrm Exec_in_createEvents [of E m f' hs]
    by (cases "exec E ?cmd f'") (simp_all add: install_cases [OF assms(1)] newEvents_def)
  have res: "(case exec E ?cmd f' of
          None \<Rightarrow>
            fst (install E m hs ?w) = Inl (ExecFailed ?cmd) \<and>
            fs (snd (install E m hs ?w)) = f' \<and>
            certRecord (snd (install E m hs ?w)) = certRecord w1
        | Some f \<Rightarrow>
            fst (install E m hs ?w) = certificateAt E f \<and> fs (snd (install E m hs ?w)) = f \<and>
            certRecord (snd (install E m hs ?w)) = Some \<lparr> hosts = hs, hash = hashAt E f \<rparr>)"
    using nrm by (simp add: install_cases [OF assms(1)] split: option.splits)
  show ?thesis
    unfolding Let_def first cnt n
    unfolding cmd_of_binaryAt [symmetric] hashAt_files [symmetric]
      certificateAt_def [symmetric]
    using c(1,3) ev res by simp
qed

theorem tampered_certificate_is_regenerated_witness:
  "[''localhost''] \<noteq> [] \<and>
   \<not> execRejected (fst (install demoEnv demoMkcert [''localhost''] demoWorld)) \<and>
   fs (snd (install demoEnv demoMkcert [''localhost''] demoWorld)) ''/d/certs/dev.pem'' =
     Some ''C0'' \<and>
   fst (install demoEnv demoMkcert [''localhost'']
          ((snd (install demoEnv demoMkcert [''localhost''] demoWorld))
             \<lparr>fs := (fs demoWorld)(''/d/certs/dev.pem'' \<mapsto> ''C1'')\<rparr>)) =
     Inr \<lparr> key = ''key of /d/mkcert -install -key-file /d/certs/dev.key '' @
                  ''-cert-file /d/certs/dev.pem localhost'',
           cert = ''cert of /d/mkcert -install -key-file /d/certs/dev.key '' @
                  ''-cert-file /d/certs/dev.pem localhost'' \<rparr> \<and>
   execCount (snd (install demoEnv demoMkcert [''localhost'']
                     ((snd (install demoEnv demoMkcert [''localhost''] demoWorld))
                        \<lparr>fs := (fs demoWorld)(''/d/certs/dev.pem'' \<mapsto> ''C1'')\<rparr>))) = 1"
proof -
  let ?hs = "[''localhost'']"
  let ?w1 = "snd (install demoEnv demoMkcert ?hs demoWorld)"
  let ?f = "(fs demoWorld)(''/d/certs/dev.pem'' \<mapsto> ''C1'')"
  have ok: "\<not> execRejected (fst (install demoEnv demoMkcert ?hs demoWorld))"
    by (simp add: run_defs demo_defs)
  have zero: "execCount ?w1 = 0"
    by (simp add: run_defs demo_defs)
  have pem: "fs ?w1 ''/d/certs/dev.pem'' = Some ''C0''"
    by (simp add: run_defs demo_defs)
  have ne: "?hs \<noteq> []" by simp
  have ch: "map_option (digest demoEnv) (?f (resolvePath demoEnv ''certs/dev.key'')) \<noteq>
              map_option (digest demoEnv) (fs ?w1 (resolvePath demoEnv ''certs/dev.key'')) \<or>
            map_option (digest demoEnv) (?f (resolvePath demoEnv ''certs/dev.pem'')) \<noteq>
              map_option (digest demoEnv) (fs ?w1 (resolvePath demoEnv ''certs/dev.pem''))"
    using pem by (simp add: demo_defs)
  note t = tampered_certificate_is_regenerated [OF ne ok refl ch, unfolded Let_def]
  have cnt: "execCount (snd (install demoEnv demoMkcert ?hs (?w1\<lparr>fs := ?f\<rparr>))) = 1"
    using t [THEN conjunct2, THEN conjunct2, THEN conjunct1] zero by simp
  have res: "fst (install demoEnv demoMkcert ?hs (?w1\<lparr>fs := ?f\<rparr>)) =
     Inr \<lparr> key = ''key of /d/mkcert -install -key-file /d/certs/dev.key '' @
                  ''-cert-file /d/certs/dev.pem localhost'',
           cert = ''cert of /d/mkcert -install -key-file /d/certs/dev.key '' @
                  ''-cert-file /d/certs/dev.pem localhost'' \<rparr>"
    using t [THEN conjunct2, THEN conjunct2, THEN conjunct2, THEN conjunct2]
    by (simp add: demo_defs)
  show ?thesis
    using ok pem cnt res by simp
qed

text \<open>
  Without the condition on the first call the property fails: when \<open>exec\<close> rejects
  the command of the first call, the record keeps the older hash, and a key file that is
  then changed back to the content with that hash is found unchanged by the second call,
  which does not regenerate.
\<close>

theorem tampered_certificate_counterexample:
  "fst (install failingEnv demoMkcert [''localhost''] staleWorld) =
     Inl (ExecFailed (''/d/mkcert -install -key-file /d/certs/dev.key '' @
                      ''-cert-file /d/certs/dev.pem localhost'')) \<and>
   getLatestHash failingEnv (snd (install failingEnv demoMkcert [''localhost''] staleWorld)) =
     \<lparr> hkey = Some ''#K9'', hcert = Some ''#C0'' \<rparr> \<and>
   getLatestHash failingEnv
     ((snd (install failingEnv demoMkcert [''localhost''] staleWorld))
        \<lparr>fs := (fs staleWorld)(''/d/certs/dev.key'' \<mapsto> ''K0'')\<rparr>) =
     \<lparr> hkey = Some ''#K0'', hcert = Some ''#C0'' \<rparr> \<and>
   execCount (snd (install failingEnv demoMkcert [''localhost''] staleWorld)) = 1 \<and>
   execCount (snd (install failingEnv demoMkcert [''localhost'']
                     ((snd (install failingEnv demoMkcert [''localhost''] staleWorld))
                        \<lparr>fs := (fs staleWorld)(''/d/certs/dev.key'' \<mapsto> ''K0'')\<rparr>))) = 1 \<and>
   fst (install failingEnv demoMkcert [''localhost'']
          ((snd (install failingEnv demoMkcert [''localhost''] staleWorld))
             \<lparr>fs := (fs staleWorld)(''/d/certs/dev.key'' \<mapsto> ''K0'')\<rparr>)) =
     Inr \<lparr> key = ''K0'', cert = ''C0'' \<rparr>"
  by (simp add: run_defs demo_defs staleWorld_def)

text \<open>
  Claim C5. When \<open>exec\<close> rejects the generation command, \<open>install\<close> leaves the
  record and the files as they were, and, whenever one of the two checks asks for a
  regeneration, returns the failure of \<open>exec\<close>. Hence a record that has changed tells
  that the command has completed.
\<close>

theorem exec_failure_keeps_record:
  assumes "hs \<noteq> []"
    and "exec E (cmd_of E (fst (getMkcertBinnary E m w)) hs) (fs w) = None"
  shows "certRecord (snd (install E m hs w)) = certRecord w \<and>
         fs (snd (install E m hs w)) = fs w \<and>
         fst (install E m hs w) =
           (if Record_contains w hs \<and> \<not> Record_tamper w (getLatestHash E w)
            then fst (getCertificate E w)
            else Inl (ExecFailed (cmd_of E (fst (getMkcertBinnary E m w)) hs)))"
proof -
  have x: "exec E (cmd_of E (binaryAt m (fs w)) hs) (fs w) = None"
    using assms(2) by (simp add: getMkcertBinnary_eq)
  have "certRecord (snd (install E m hs w)) = certRecord w \<and>
         fs (snd (install E m hs w)) = fs w \<and>
         fst (install E m hs w) =
           (if recordMatches E hs w
            then fst (getCertificate E w)
            else Inl (ExecFailed (cmd_of E (fst (getMkcertBinnary E m w)) hs)))"
  proof (cases "recordMatches E hs w")
    case True
    then show ?thesis
      using assms(1) renew_keeps [OF True, of m]
        fst_getCertificate_fs [of "snd (renew E m hs w)" w E]
      by (simp add: install_eq)
  next
    case False
    then show ?thesis
      using assms(1) x
      by (simp add: install_eq renew_eq getMkcertBinnary_eq)
  qed
  then show ?thesis
    by (simp only: recordMatches_iff)
qed

theorem exec_failure_keeps_record_witness:
  "[''localhost'', ''127.0.0.1''] \<noteq> [] \<and>
   exec failingEnv
     (cmd_of failingEnv (fst (getMkcertBinnary failingEnv demoMkcert demoWorld))
        [''localhost'', ''127.0.0.1'']) (fs demoWorld) = None \<and>
   certRecord (snd (install failingEnv demoMkcert [''localhost'', ''127.0.0.1''] demoWorld)) =
     certRecord demoWorld \<and>
   fst (install failingEnv demoMkcert [''localhost'', ''127.0.0.1''] demoWorld) =
     Inl (ExecFailed (''/d/mkcert -install -key-file /d/certs/dev.key '' @
                      ''-cert-file /d/certs/dev.pem localhost 127.0.0.1''))"
  using exec_failure_keeps_record
          [of "[''localhost'', ''127.0.0.1'']" failingEnv demoMkcert demoWorld]
  by (simp add: demo_defs Record_contains_def Record_getHosts_def cmd_of_def
      getMkcertBinnary_def checkMkcert_def exists_file_def KEY_FILE_PATH_def
      CERT_FILE_PATH_def)

subsection \<open>Provisioning the binary\<close>

text \<open>
  Claim C6. With the binary present and a source that answers, \<open>updateMkcert\<close> returns
  without a download and without persisting a version when the comparison reports a
  breaking change or no update: the only effect is one diagnostic, which names the current
  and the next version when an update with a breaking change is reported, and which says
  that mkcert is up to date when no update is reported.
\<close>

theorem updateMkcert_skips_update:
  assumes "getSourceInfo E m = Some si"
    and "vi = compare E (version w) (si_version si)"
    and "breakingChange vi \<or> \<not> shouldUpdate vi"
  shows "updateMkcert E m True w =
           (Inr (),
            w\<lparr>trace := trace w @
               [if shouldUpdate vi
                then Debug (''The current version of mkcert is %s, and the latest version '' @
                            ''is %s, there may be some breaking changes, update skipped'')
                       [currentVersion vi, Some (nextVersion vi)]
                else Debug ''Mkcert is kept latest version, update skipped'' []]\<rparr>)"
  using assms by (auto simp add: updateMkcert_def debug_def emit_def Let_def)

theorem updateMkcert_skips_update_witness:
  "getSourceInfo demoEnv codingMkcert =
     Some \<lparr> si_version = ''v2.0.0'', downloadUrl = ''https://e.org/mkcert'' \<rparr> \<and>
   breakingChange (compare demoEnv (version demoWorld) ''v2.0.0'') \<and>
   updateMkcert demoEnv codingMkcert True demoWorld =
     (Inr (),
      demoWorld\<lparr>trace :=
        [Debug (''The current version of mkcert is %s, and the latest version '' @
                ''is %s, there may be some breaking changes, update skipped'')
           [Some ''v1.4.3'', Some ''v2.0.0'']]\<rparr>)"
  using updateMkcert_skips_update [of demoEnv codingMkcert
      "\<lparr> si_version = ''v2.0.0'', downloadUrl = ''https://e.org/mkcert'' \<rparr>"
      "compare demoEnv (version demoWorld) ''v2.0.0''" demoWorld]
  by (simp add: demo_defs getSourceInfo_def)

text \<open>
  Claim C7. When the source gives no information, \<open>updateMkcert\<close> only emits
  diagnostics, the last of which says that the update is skipped, and returns. \<open>init\<close>
  then returns without an error, emits nothing but diagnostics, and leaves the files, the
  version and the record as they were; when the binary is absent, the skip diagnostic is
  the last thing it emits.
\<close>

theorem updateMkcert_no_source_info:
  assumes "getSourceInfo E m = None"
  shows "updateMkcert E m mkcertExist w =
           (Inr (),
            w\<lparr>trace := trace w @
               (case sourceType m of
                  Github \<Rightarrow>
                    [Debug ''Failed to request mkcert information, please check your network'' [],
                     Debug (''If you are a user in china, maybe you should set '' @
                            [CHR 0x22] @ ''source'' @ [CHR 0x22] @ '' paramter to '' @
                            [CHR 0x22] @ ''coding'' @ [CHR 0x22]) []]
                | Coding \<Rightarrow>
                    [Debug ''Failed to request mkcert information, please check your network'' []]
                | Custom r \<Rightarrow>
                    [Debug (''Please check your custom '' @ [CHR 0x22] @ ''source'' @
                            [CHR 0x22] @ '', it seems to return invalid result'') []]) @
               [Debug ''Can not get mkcert information, update skipped'' []]\<rparr>) \<and>
         fst (init E m w) = Inr () \<and>
         fs (snd (init E m w)) = fs w \<and>
         version (snd (init E m w)) = version w \<and>
         certRecord (snd (init E m w)) = certRecord w \<and>
         (\<exists>ds. trace (snd (init E m w)) = trace w @ ds \<and> list_all is_diagnostic ds \<and>
               (if fs w (js_or (mkcertLocalPath m) (mkcertSavedPath m)) = None
                then ds \<noteq> [] \<and>
                     last ds = Debug ''Can not get mkcert information, update skipped'' []
                else True))"
proof -
  let ?ds = "(case sourceType m of
                  Github \<Rightarrow>
                    [Debug ''Failed to request mkcert information, please check your network'' [],
                     Debug (''If you are a user in china, maybe you should set '' @
                            [CHR 0x22] @ ''source'' @ [CHR 0x22] @ '' paramter to '' @
                            [CHR 0x22] @ ''coding'' @ [CHR 0x22]) []]
                | Coding \<Rightarrow>
                    [Debug ''Failed to request mkcert information, please check your network'' []]
                | Custom r \<Rightarrow>
                    [Debug (''Please check your custom '' @ [CHR 0x22] @ ''source'' @
                            [CHR 0x22] @ '', it seems to return invalid result'') []]) @
               [Debug ''Can not get mkcert information, update skipped'' []]"
  have upd: "updateMkcert E m ex v = (Inr (), v\<lparr>trace := trace v @ ?ds\<rparr>)" for ex v
    using assms
    by (simp add: updateMkcert_def debug_def emit_def split: source_type.splits)
  have diag: "list_all is_diagnostic ?ds"
    by (simp split: source_type.splits)
  obtain ex w1 where chk: "checkMkcert E m w = (ex, w1)"
    by (cases "checkMkcert E m w")
  have ex: "ex = (fs w (js_or (mkcertLocalPath m) (mkcertSavedPath m)) \<noteq> None)"
    using fst_checkMkcert [of E m w] chk by simp
  have w1: "w1 = w\<lparr>trace := trace w @ localPathReport E m\<rparr>"
    using snd_checkMkcert [of E m w] chk by simp
  have rep: "list_all is_diagnostic (localPathReport E m)"
    by (simp add: localPathReport_def)
  show ?thesis
  proof (cases "autoUpgrade m = Some True \<or> \<not> ex")
    case True
    then have i: "init E m w = (Inr (), w\<lparr>trace := trace w @ localPathReport E m @ ?ds\<rparr>)"
      using chk by (simp add: init_def Config_init_def upd w1)
    have "list_all is_diagnostic (localPathReport E m @ ?ds)"
      using rep diag by simp
    moreover have "localPathReport E m @ ?ds \<noteq> []" by simp
    moreover have "last (localPathReport E m @ ?ds) =
                     Debug ''Can not get mkcert information, update skipped'' []"
      by simp
    ultimately show ?thesis
      unfolding i upd by (simp del: append_assoc list_all_append last_appendR)
  next
    case False
    then have i: "init E m w = (Inr (), w\<lparr>trace := trace w @ localPathReport E m\<rparr>)"
      using chk by (simp add: init_def Config_init_def w1)
    from False have "fs w (js_or (mkcertLocalPath m) (mkcertSavedPath m)) \<noteq> None"
      using ex by simp
    then show ?thesis
      unfolding i upd using rep by auto
  qed
qed

theorem updateMkcert_no_source_info_witness:
  "getSourceInfo demoEnv demoMkcert = None \<and>
   fst (init demoEnv demoMkcert emptyWorld) = Inr () \<and>
   fs (snd (init demoEnv demoMkcert emptyWorld)) = fs emptyWorld \<and>
   version (snd (init demoEnv demoMkcert emptyWorld)) = None \<and>
   updateMkcert demoEnv demoMkcert False emptyWorld =
     (Inr (),
      emptyWorld\<lparr>trace :=
        [Debug ''Failed to request mkcert information, please check your network'' [],
         Debug (''If you are a user in china, maybe you should set '' @
                [CHR 0x22] @ ''source'' @ [CHR 0x22] @ '' paramter to '' @
                [CHR 0x22] @ ''coding'' @ [CHR 0x22]) [],
         Debug ''Can not get mkcert information, update skipped'' []]\<rparr>)"
  using updateMkcert_no_source_info [of demoEnv demoMkcert False emptyWorld]
  by (simp add: demo_defs getSourceInfo_def)

text \<open>
  Claim C8. With the binary absent and a source that answers, \<open>updateMkcert\<close> downloads
  from the source's URL to the managed path and, when the download succeeds, persists the
  version that the source reports; a failed download is returned as the error. The result
  does not depend on the version comparison.
\<close>

theorem updateMkcert_binary_absent:
  assumes "getSourceInfo E m = Some si"
  shows "updateMkcert E m False w =
           (case download E (downloadUrl si) (mkcertSavedPath m) (fs w) of
              None \<Rightarrow>
                (Inl (DownloadFailed (downloadUrl si) (mkcertSavedPath m)),
                 w\<lparr>trace := trace w @
                    [Debug ''mkcert does not exist, download it now'' [],
                     Download (downloadUrl si) (mkcertSavedPath m)]\<rparr>)
            | Some fs' \<Rightarrow>
                (Inr (),
                 w\<lparr>fs := fs', version := Some (si_version si),
                   trace := trace w @
                    [Debug ''mkcert does not exist, download it now'' [],
                     Download (downloadUrl si) (mkcertSavedPath m)]\<rparr>)) \<and>
         updateMkcert (E\<lparr>compare := cmp\<rparr>) m False w = updateMkcert E m False w"
  using assms
  by (auto simp add: updateMkcert_def downloadMkcert_def VersionManger_update_def
      getSourceInfo_def debug_def emit_def Let_def split: option.splits source_type.splits)

theorem updateMkcert_binary_absent_witness:
  "getSourceInfo demoEnv codingMkcert =
     Some \<lparr> si_version = ''v2.0.0'', downloadUrl = ''https://e.org/mkcert'' \<rparr> \<and>
   updateMkcert demoEnv codingMkcert False emptyWorld =
     (Inr (),
      \<lparr> fs = [''/d/mkcert'' \<mapsto> ''binary of https://e.org/mkcert''],
        version = Some ''v2.0.0'', certRecord = None,
        trace = [Debug ''mkcert does not exist, download it now'' [],
                 Download ''https://e.org/mkcert'' ''/d/mkcert''] \<rparr>)"
  using updateMkcert_binary_absent [of demoEnv codingMkcert
      "\<lparr> si_version = ''v2.0.0'', downloadUrl = ''https://e.org/mkcert'' \<rparr>" emptyWorld]
  by (simp add: demo_defs getSourceInfo_def)

subsection \<open>The generation command\<close>

text \<open>
  Claim C9. What \<open>regenerate\<close> adds to the trace is, between diagnostics, the two
  \<open>ensureDirExist\<close> calls for the key path and the certificate path followed by one
  invocation of the command: the binary path, the fixed flags with the two fixed paths,
  and the hosts joined by single spaces. The invocation is \<open>exec\<close> applied to that
  command and the files on disk: when it rejects, \<open>regenerate\<close> returns the failure
  with files and record unchanged; when it returns, the files are the ones it returned
  and the record holds the hosts and the digests of the new files. When no binary is
  present the command is run all the same; the absent path is interpolated into the
  template as \<open>undefined\<close>.
\<close>

theorem regenerate_command:
  "let keyPath = resolvePath E ''certs/dev.key'';
       certPath = resolvePath E ''certs/dev.pem'';
       binary = js_or (mkcertLocalPath m) (mkcertSavedPath m);
       cmd = (if fs w binary = None then ''undefined'' else binary) @
             '' -install -key-file '' @ keyPath @ '' -cert-file '' @ certPath @
             '' '' @ join '' '' hs;
       r = regenerate E m hs w
   in (\<exists>pre post.
         trace (snd r) =
           trace w @ pre @ [EnsureDirExist keyPath, EnsureDirExist certPath, Exec cmd] @ post \<and>
         list_all is_diagnostic pre \<and> list_all is_diagnostic post) \<and>
      (case exec E cmd (fs w) of
         None \<Rightarrow>
           fst r = Inl (ExecFailed cmd) \<and> fs (snd r) = fs w \<and>
           certRecord (snd r) = certRecord w
       | Some f \<Rightarrow>
           fst r = Inr () \<and> fs (snd r) = f \<and>
           certRecord (snd r) =
             Some \<lparr> hosts = hs,
                    hash = \<lparr> hkey = map_option (digest E) (f keyPath),
                             hcert = map_option (digest E) (f certPath) \<rparr> \<rparr>)"
proof -
  let ?cmd = "cmd_of E (binaryAt m (fs w)) hs"
  obtain pre where pre:
    "createEvents E m hs (fs w) =
       pre @ [EnsureDirExist (KEY_FILE_PATH E), EnsureDirExist (CERT_FILE_PATH E), Exec ?cmd]"
    and d: "list_all is_diagnostic pre"
    using createEvents_shape [of E m hs "fs w"] by blast
  have t: "trace (snd (regenerate E m hs w)) =
          trace w @ pre @
          [EnsureDirExist (KEY_FILE_PATH E), EnsureDirExist (CERT_FILE_PATH E), Exec ?cmd] @
          (case exec E ?cmd (fs w) of None \<Rightarrow> [] | Some f \<Rightarrow> [savedInfo E])"
    by (simp add: regenerate_eq pre split: option.splits)
  have p: "list_all is_diagnostic
          (case exec E ?cmd (fs w) of None \<Rightarrow> [] | Some f \<Rightarrow> [savedInfo E])"
    by (simp add: savedInfo_def split: option.splits)
  have shape: "\<exists>pre post.
         trace (snd (regenerate E m hs w)) =
           trace w @ pre @
           [EnsureDirExist (KEY_FILE_PATH E), EnsureDirExist (CERT_FILE_PATH E), Exec ?cmd] @
           post \<and>
         list_all is_diagnostic pre \<and> list_all is_diagnostic post"
    using t d p by blast
  have res: "(case exec E ?cmd (fs w) of
         None \<Rightarrow>
           fst (regenerate E m hs w) = Inl (ExecFailed ?cmd) \<and>
           fs (snd (regenerate E m hs w)) = fs w \<and>
           certRecord (snd (regenerate E m hs w)) = certRecord w
       | Some f \<Rightarrow>
           fst (regenerate E m hs w) = Inr () \<and>
           fs (snd (regenerate E m hs w)) = f \<and>
           certRecord (snd (regenerate E m hs w)) = Some \<lparr> hosts = hs, hash = hashAt E f \<rparr>)"
    by (simp add: regenerate_eq split: option.splits)
  show ?thesis
    unfolding Let_def
    unfolding cmd_of_binaryAt [symmetric] hashAt_files [symmetric]
    using shape [unfolded KEY_FILE_PATH_def CERT_FILE_PATH_def] res by simp
qed

theorem regenerate_command_witness:
  "fst (regenerate failingEnv demoMkcert [''localhost'', ''127.0.0.1''] emptyWorld) =
     Inl (ExecFailed (''undefined -install -key-file /d/certs/dev.key '' @
                      ''-cert-file /d/certs/dev.pem localhost 127.0.0.1'')) \<and>
   certRecord (snd (regenerate failingEnv demoMkcert [''localhost'', ''127.0.0.1''] emptyWorld)) =
     None \<and>
   fst (regenerate demoEnv demoMkcert [''localhost''] demoWorld) = Inr () \<and>
   fs (snd (regenerate demoEnv demoMkcert [''localhost''] demoWorld)) ''/d/certs/dev.key'' =
     Some (''key of /d/mkcert -install -key-file /d/certs/dev.key '' @
           ''-cert-file /d/certs/dev.pem localhost'')"
  using regenerate_command
          [where E = failingEnv and m = demoMkcert and w = emptyWorld
             and hs = "[''localhost'', ''127.0.0.1'']"]
    regenerate_command
          [where E = demoEnv and m = demoMkcert and w = demoWorld and hs = "[''localhost'']"]
  by (simp add: demo_defs Let_def)

text \<open>
  Claim C10. With a local binary path configured, \<open>checkMkcert\<close> emits the error
  stating that the path does not exist in every case: its result tells whether the file
  is there, and the error is emitted whatever that result is.
\<close>

theorem checkMkcert_local_path_always_reports:
  assumes "mkcertLocalPath m = Some p" and "p \<noteq> []"
  shows "checkMkcert E m w =
           (fs w p \<noteq> None,
            w\<lparr>trace := trace w @
               [LoggerError (chalk_red E
                  (p @ '' does not exist, please check the mkcertPath paramter''))]\<rparr>)"
  using assms by (simp add: checkMkcert_def exists_file_def emit_def)

theorem checkMkcert_local_path_always_reports_witness:
  "mkcertLocalPath localMkcert = Some ''/bin/mkcert'' \<and> ''/bin/mkcert'' \<noteq> [] \<and>
   checkMkcert demoEnv localMkcert demoWorld =
     (True,
      demoWorld\<lparr>trace :=
        [LoggerError ''/bin/mkcert does not exist, please check the mkcertPath paramter'']\<rparr>)"
  using checkMkcert_local_path_always_reports [of localMkcert "''/bin/mkcert''" demoEnv demoWorld]
  by (simp add: demo_defs)

end
